theory Spec2Isabelle
  imports Complex_Main
begin

section \<open>Core types (src/lib/types.ts)\<close>

text \<open>
  JavaScript numbers are modelled as reals, strings as lists of code units below 256 (the
  ISO-8859-1 range), dates as a number of milliseconds. Arithmetic is exact, except in
  \<open>selectNextCategory\<close> and \<open>calculateSkillScores\<close>, where the outcome depends on the
  rounding and every operation is rounded to binary64 (\<open>toDouble\<close>). Fields that none of
  the functions embedded below reads (explanations, rubric criteria, tags, free-form
  metadata bags) are left out of the records.
\<close>

datatype ExcelSkillCategory =
  BASIC_FORMULAS | DATA_MANIPULATION | PIVOT_TABLES | ADVANCED_FUNCTIONS
  | DATA_VISUALIZATION | MACROS_VBA | DATA_MODELING

datatype ExcelLevel = basic | intermediate | advanced

type_synonym DifficultyLevel = ExcelLevel

datatype InterviewStatus = active | paused | completed

datatype TurnType = QuestionTurn | ResponseTurn | SystemTurn

text \<open>Every \<^verbatim>\<open>throw\<close> of the source is a value: \<open>Error\<close> carries the message of a
  \<^verbatim>\<open>new Error(...)\<close>, \<open>RecordNotFound\<close> and \<open>UniqueConstraintFailed\<close> are the database client
  rejecting an update of a row that does not exist and an insert under an id already taken, \<open>TypeError\<close> is a property read on \<^verbatim>\<open>undefined\<close>.\<close>

datatype error = Error string | RecordNotFound string | UniqueConstraintFailed string | TypeError

record ExpectedAnswer =
  pattern :: string
  ea_score :: real

record CommonMistake =
  m_pattern :: string
  deduction :: real
  m_feedback :: string

record PartialCreditRule =
  condition :: string
  creditPercentage :: real
  r_feedback :: string

record EvaluationRubric =
  maxScore :: real
  commonMistakes :: "CommonMistake list"
  partialCreditRules :: "PartialCreditRule list"

record FollowUpCondition =
  trigger :: string
  questionTemplate :: string

record Question =
  q_id :: string
  category :: ExcelSkillCategory
  difficulty :: DifficultyLevel
  q_text :: string
  expectedAnswerPatterns :: "string list"
  evaluationCriteria :: EvaluationRubric
  followUpTriggers :: "FollowUpCondition list"

record ExcelQuestion =
  x_category :: ExcelSkillCategory
  x_difficulty :: DifficultyLevel
  x_text :: string
  expectedAnswers :: "ExpectedAnswer list"
  evaluationRubric :: EvaluationRubric

record PartialCredit =
  criterion :: string
  points :: real
  pc_reasoning :: string

record EvaluationResult =
  questionId :: string
  score :: real
  confidence :: real
  reasoning :: string
  partialCredits :: "PartialCredit list"
  suggestedFollowUp :: "string option"

record SkillScores =
  overall :: real
  basicFormulas :: real
  dataManipulation :: real
  pivotTables :: real
  advancedFunctions :: real
  dataVisualization :: real
  macrosVBA :: real
  dataModeling :: real

record ConversationTurn =
  t_id :: string
  t_type :: TurnType
  content :: string
  timestamp :: nat
  meta_question :: "Question option"
  meta_questionIndex :: "nat option"

record InterviewSession =
  s_id :: string
  candidateId :: string
  roleLevel :: ExcelLevel
  status :: InterviewStatus
  currentQuestionIndex :: nat
  conversationHistory :: "ConversationTurn list"
  skillAssessment :: SkillScores
  startTime :: nat
  endTime :: "nat option"

record InterviewContext =
  sessionId :: string
  candidateLevel :: ExcelLevel
  previousQuestions :: "Question list"
  currentSkillScores :: SkillScores
  ctx_conversationHistory :: "ConversationTurn list"

section \<open>String primitives\<close>

text \<open>\<^verbatim>\<open>String.prototype.trim\<close> strips the white space and line terminators of ECMAScript; below
  256 these are the code units 9 to 13, 32 and 160.\<close>

definition isWhiteSpace :: "char \<Rightarrow> bool" where
  "isWhiteSpace c = ((of_char c :: nat) \<in> {9, 10, 11, 12, 13, 32, 160})"

text \<open>\<^verbatim>\<open>toLowerCase\<close> on the code units below 256: A to Z and the accented capitals 192 to 222
  (not the multiplication sign 215) move up by 32.\<close>

definition toLowerChar :: "char \<Rightarrow> char" where
  "toLowerChar c =
     (let n = (of_char c :: nat)
      in if (65 \<le> n \<and> n \<le> 90) \<or> (192 \<le> n \<and> n \<le> 222 \<and> n \<noteq> 215)
         then char_of (n + 32) else c)"

definition toLowerCase :: "string \<Rightarrow> string" where
  "toLowerCase s = map toLowerChar s"

definition trim :: "string \<Rightarrow> string" where
  "trim s = rev (dropWhile isWhiteSpace (rev (dropWhile isWhiteSpace s)))"

fun startsWith :: "string \<Rightarrow> string \<Rightarrow> bool" where
  "startsWith s [] = True"
| "startsWith [] (d # p) = False"
| "startsWith (c # s) (d # p) = (c = d \<and> startsWith s p)"

text \<open>\<^verbatim>\<open>s.includes(p)\<close>: \<open>p\<close> occurs in \<open>s\<close> as a contiguous run; the empty string occurs
  everywhere.\<close>

fun str_includes :: "string \<Rightarrow> string \<Rightarrow> bool" where
  "str_includes [] p = (p = [])"
| "str_includes (c # s) p = (startsWith (c # s) p \<or> str_includes s p)"

section \<open>Binary64 rounding\<close>

text \<open>
  \<open>toDouble x\<close> is the binary64 number nearest to \<open>x\<close>, ties going to the even significand:
  the result of a JavaScript operation whose exact result is \<open>x\<close>, and the value of a decimal
  literal \<open>x\<close>. A number of magnitude \<open>a\<close> lies in the binade \<open>2 ^ e \<le> a < 2 ^ (e + 1)\<close>, with
  \<open>e\<close> no lower than -1022 (below that the spacing stays that of the subnormals), and is
  rounded to a multiple of \<open>2 ^ (e - 52)\<close>. Overflow to infinity (magnitudes from \<open>2 ^ 1024\<close>)
  is outside the model; the quantities rounded below are weights, ratios and scores.
\<close>

text \<open>The search for the binade: \<open>a\<close> is halved, or doubled, while \<open>e\<close> counts the steps,
  and stops at the ends of the exponent range.\<close>

function exponentUp :: "int \<Rightarrow> real \<Rightarrow> int" where
  "exponentUp e a = (if a < 2 \<or> 1023 \<le> e then e else exponentUp (e + 1) (a / 2))"
  by pat_completeness auto
termination
  by (relation "measure (\<lambda>(e, a). nat (1023 - e))") auto

function exponentDown :: "int \<Rightarrow> real \<Rightarrow> int" where
  "exponentDown e a = (if 1 \<le> a \<or> e \<le> - 1022 then e else exponentDown (e - 1) (a * 2))"
  by pat_completeness auto
termination
  by (relation "measure (\<lambda>(e, a). nat (e + 1022))") auto

declare exponentUp.simps [simp del] exponentDown.simps [simp del]

definition binaryExponent :: "real \<Rightarrow> int" where
  "binaryExponent a = (if 1 \<le> a then exponentUp 0 a else exponentDown 0 a)"

definition twoTo :: "int \<Rightarrow> real" where
  "twoTo e = (if 0 \<le> e then 2 ^ nat e else 1 / 2 ^ nat (- e))"

definition roundHalfEven :: "real \<Rightarrow> int" where
  "roundHalfEven m =
     (let f = \<lfloor>m\<rfloor>; r = m - of_int f
      in if r < 1 / 2 then f
         else if r > 1 / 2 then f + 1
         else if even f then f else f + 1)"

definition toDouble :: "real \<Rightarrow> real" where
  "toDouble x =
     (if x = 0 then 0
      else let a = \<bar>x\<bar>; ulp = twoTo (binaryExponent a - 52)
           in sgn x * of_int (roundHalfEven (a / ulp)) * ulp)"

section \<open>The question bank (data/excel-questions)\<close>

definition sumRangeQuestion :: ExcelQuestion where
  \<open>sumRangeQuestion =
    \<lparr>x_category = BASIC_FORMULAS, x_difficulty = basic,
     x_text = ''How would you calculate the sum of values in cells A1 through A10? Please explain the formula you would use.'',
     expectedAnswers =
      [\<lparr>pattern = ''=SUM(A1:A10)'', ea_score = 100\<rparr>,
       \<lparr>pattern = ''SUM(A1:A10)'', ea_score = 80\<rparr>,
       \<lparr>pattern = ''=A1+A2+A3+A4+A5+A6+A7+A8+A9+A10'', ea_score = 60\<rparr>],
     evaluationRubric =
      \<lparr>maxScore = 100,
       commonMistakes =
         [\<lparr>m_pattern = ''missing equals sign'', deduction = 20,
            m_feedback = ''Remember to start formulas with an equals sign (=)''\<rparr>,
          \<lparr>m_pattern = ''incorrect range syntax'', deduction = 30,
            m_feedback = ''Use colon (:) to specify ranges, e.g., A1:A10''\<rparr>],
       partialCreditRules =
         [\<lparr>condition = ''mentions SUM function'', creditPercentage = 50,
            r_feedback = ''Good knowledge of SUM function, but check syntax''\<rparr>]\<rparr>\<rparr>\<close>

definition averageRangeQuestion :: ExcelQuestion where
  \<open>averageRangeQuestion =
    \<lparr>x_category = BASIC_FORMULAS, x_difficulty = basic,
     x_text = ''If you want to find the average of numbers in cells B1 to B20, what formula would you use?'',
     expectedAnswers =
      [\<lparr>pattern = ''=AVERAGE(B1:B20)'', ea_score = 100\<rparr>,
       \<lparr>pattern = ''=SUM(B1:B20)/20'', ea_score = 85\<rparr>],
     evaluationRubric =
      \<lparr>maxScore = 100,
       commonMistakes =
         [\<lparr>m_pattern = ''AVG instead of AVERAGE'', deduction = 15,
            m_feedback = ''The function is AVERAGE, not AVG in Excel''\<rparr>],
       partialCreditRules =
         []\<rparr>\<rparr>\<close>

definition lookupSalaryQuestion :: ExcelQuestion where
  \<open>lookupSalaryQuestion =
    \<lparr>x_category = DATA_MANIPULATION, x_difficulty = intermediate,
     x_text = ''You have a list of employee names in column A and their salaries in column B. How would you find the salary of a specific employee, say \'John Smith\', using a lookup function?'',
     expectedAnswers =
      [\<lparr>pattern = ''=VLOOKUP("John Smith",A:B,2,FALSE)'', ea_score = 100\<rparr>,
       \<lparr>pattern = ''=INDEX(B:B,MATCH("John Smith",A:A,0))'', ea_score = 100\<rparr>,
       \<lparr>pattern = ''=XLOOKUP("John Smith",A:A,B:B)'', ea_score = 100\<rparr>],
     evaluationRubric =
      \<lparr>maxScore = 100,
       commonMistakes =
         [\<lparr>m_pattern = ''missing FALSE parameter'', deduction = 25,
            m_feedback = ''For exact matches, use FALSE as the last parameter in VLOOKUP''\<rparr>,
          \<lparr>m_pattern = ''wrong column index'', deduction = 30,
            m_feedback = ''Column index should be 2 for the second column (salary)''\<rparr>],
       partialCreditRules =
         [\<lparr>condition = ''mentions VLOOKUP concept'', creditPercentage = 60,
            r_feedback = ''Good understanding of lookup concept, refine the syntax''\<rparr>]\<rparr>\<rparr>\<close>

definition pivotSalesQuestion :: ExcelQuestion where
  \<open>pivotSalesQuestion =
    \<lparr>x_category = PIVOT_TABLES, x_difficulty = intermediate,
     x_text = ''You have sales data with columns for Date, Salesperson, Product, and Amount. How would you create a pivot table to show total sales by salesperson and product?'',
     expectedAnswers =
      [\<lparr>pattern = ''drag salesperson to rows, product to columns, amount to values'', ea_score = 100\<rparr>,
       \<lparr>pattern = ''salesperson in row area, product in column area, sum of amount in data area'', ea_score = 95\<rparr>],
     evaluationRubric =
      \<lparr>maxScore = 100,
       commonMistakes =
         [\<lparr>m_pattern = ''amount in wrong area'', deduction = 40,
            m_feedback = ''Amount should go in the Values area for aggregation''\<rparr>],
       partialCreditRules =
         [\<lparr>condition = ''mentions pivot table creation'', creditPercentage = 40,
            r_feedback = ''Good awareness of pivot tables, focus on field placement''\<rparr>]\<rparr>\<rparr>\<close>


definition trendChartQuestion :: ExcelQuestion where
  \<open>trendChartQuestion =
    \<lparr>x_category = DATA_VISUALIZATION, x_difficulty = intermediate,
     x_text = ''You have monthly sales data for the past year. What type of chart would be most appropriate to show the trend over time, and how would you create it?'',
     expectedAnswers =
      [\<lparr>pattern = ''line chart'', ea_score = 100\<rparr>,
       \<lparr>pattern = ''area chart'', ea_score = 85\<rparr>,
       \<lparr>pattern = ''column chart'', ea_score = 70\<rparr>],
     evaluationRubric =
      \<lparr>maxScore = 100,
       commonMistakes =
         [\<lparr>m_pattern = ''pie chart'', deduction = 60,
            m_feedback = ''Pie charts are not suitable for time series data''\<rparr>],
       partialCreditRules =
         []\<rparr>\<rparr>\<close>



text \<open>The role tables, each in the key order of its object literal (the order in which
  \<^verbatim>\<open>Object.entries\<close> enumerates it).\<close>

fun roleQuestionWeights :: "ExcelLevel \<Rightarrow> (ExcelSkillCategory \<times> real) list" where
  "roleQuestionWeights basic =
     [(BASIC_FORMULAS, 0.4), (DATA_MANIPULATION, 0.3), (DATA_VISUALIZATION, 0.2),
      (PIVOT_TABLES, 0.1), (ADVANCED_FUNCTIONS, 0.0), (MACROS_VBA, 0.0),
      (DATA_MODELING, 0.0)]"
| "roleQuestionWeights intermediate =
     [(BASIC_FORMULAS, 0.2), (DATA_MANIPULATION, 0.3), (PIVOT_TABLES, 0.25),
      (DATA_VISUALIZATION, 0.15), (ADVANCED_FUNCTIONS, 0.1), (MACROS_VBA, 0.0),
      (DATA_MODELING, 0.0)]"
| "roleQuestionWeights advanced =
     [(BASIC_FORMULAS, 0.1), (DATA_MANIPULATION, 0.2), (PIVOT_TABLES, 0.2),
      (ADVANCED_FUNCTIONS, 0.25), (DATA_VISUALIZATION, 0.1), (MACROS_VBA, 0.1),
      (DATA_MODELING, 0.05)]"

section \<open>Evaluation engine (IntelligentEvaluationEngine)\<close>

text \<open>The loop over \<^verbatim>\<open>question.expectedAnswerPatterns\<close>: the first pattern whose lower-cased
  form occurs in the normalized response.\<close>

fun firstMatch :: "string \<Rightarrow> string list \<Rightarrow> string option" where
  "firstMatch normalizedResponse [] = None"
| "firstMatch normalizedResponse (p # ps) =
     (if str_includes normalizedResponse (toLowerCase p) then Some p
      else firstMatch normalizedResponse ps)"

definition mistakeCredits :: "string \<Rightarrow> CommonMistake list \<Rightarrow> PartialCredit list" where
  "mistakeCredits normalizedResponse mistakes =
     map (\<lambda>mistake. \<lparr>criterion = ''Common Mistake'', points = - deduction mistake,
                       pc_reasoning = m_feedback mistake\<rparr>)
       (filter (\<lambda>mistake. str_includes normalizedResponse (toLowerCase (m_pattern mistake)))
          mistakes)"

definition ruleCredits :: "real \<Rightarrow> string \<Rightarrow> PartialCreditRule list \<Rightarrow> PartialCredit list" where
  "ruleCredits maxS normalizedResponse rules =
     map (\<lambda>rule. \<lparr>criterion = ''Partial Credit'',
                    points = (maxS * creditPercentage rule) / 100,
                    pc_reasoning = r_feedback rule\<rparr>)
       (filter (\<lambda>rule. str_includes normalizedResponse (toLowerCase (condition rule))) rules)"

definition tryRuleBasedEvaluation :: "Question \<Rightarrow> string \<Rightarrow> EvaluationResult option" where
  "tryRuleBasedEvaluation q resp =
     (let normalizedResponse = trim (toLowerCase resp)
      in case firstMatch normalizedResponse (expectedAnswerPatterns q) of
           Some p \<Rightarrow>
             Some \<lparr>questionId = q_id q, score = 95, confidence = 0.9,
                   reasoning = ''Response matches expected pattern: '' @ p,
                   partialCredits =
                     [\<lparr>criterion = ''Exact Match'', points = 95,
                       pc_reasoning = ''Response contains the expected formula or concept''\<rparr>],
                   suggestedFollowUp = None\<rparr>
         | None \<Rightarrow>
             (let credits =
                    mistakeCredits normalizedResponse (commonMistakes (evaluationCriteria q))
                    @ ruleCredits (maxScore (evaluationCriteria q)) normalizedResponse
                        (partialCreditRules (evaluationCriteria q))
              in if length credits > 0
                 then let totalPoints = foldl (\<lambda>sum credit. sum + points credit) 0 credits
                      in Some \<lparr>questionId = q_id q, score = max 0 (min 100 totalPoints),
                               confidence = 0.7,
                               reasoning = ''Rule-based evaluation with pattern matching'',
                               partialCredits = credits, suggestedFollowUp = None\<rparr>
                 else None))"

text \<open>The AI tier is an external capability: a function from the request to a result or a
  failure. \<open>evaluateResponse\<close> returns, next to its outcome, the number of calls it made to
  that capability.\<close>

type_synonym AIClient =
  "Question \<Rightarrow> string \<Rightarrow> InterviewContext \<Rightarrow> error + EvaluationResult"

definition combineWithRules :: "EvaluationResult option \<Rightarrow> EvaluationResult \<Rightarrow> EvaluationResult" where
  "combineWithRules ruleBasedResult aiResult =
     (case ruleBasedResult of
        None \<Rightarrow> aiResult
      | Some rb \<Rightarrow>
          aiResult\<lparr>confidence := max (confidence aiResult) (confidence rb),
                   partialCredits := partialCredits aiResult @ partialCredits rb\<rparr>)"

definition evaluateResponse ::
  "AIClient \<Rightarrow> Question \<Rightarrow> string \<Rightarrow> InterviewContext \<Rightarrow> (error + EvaluationResult) \<times> nat" where
  "evaluateResponse evaluateExcelResponse q resp ctx =
     (let ruleBasedResult = tryRuleBasedEvaluation q resp
      in case ruleBasedResult of
           Some rb \<Rightarrow>
             if confidence rb > 0.8 then (Inr rb, 0)
             else (map_sum id (combineWithRules ruleBasedResult)
                     (evaluateExcelResponse q resp ctx), 1)
         | None \<Rightarrow>
             (map_sum id (combineWithRules ruleBasedResult)
                (evaluateExcelResponse q resp ctx), 1))"

text \<open>The placeholder of the source: every evaluation is filed under basic formulas.\<close>

definition extractCategoryFromEvaluation :: "EvaluationResult \<Rightarrow> ExcelSkillCategory" where
  "extractCategoryFromEvaluation evaluation = BASIC_FORMULAS"

definition calculateCategoryAverage :: "real list \<Rightarrow> real" where
  "calculateCategoryAverage scores =
     (if length scores = 0 then 0
      else toDouble (foldl (\<lambda>sum s. toDouble (sum + s)) 0 scores / real (length scores)))"

text \<open>\<^verbatim>\<open>categoryScores[c]\<close>: the scores pushed under key \<open>c\<close>, in order (a missing key and an
  empty array both average to 0).\<close>

definition categoryScores :: "EvaluationResult list \<Rightarrow> ExcelSkillCategory \<Rightarrow> real list" where
  "categoryScores evaluations c =
     map score (filter (\<lambda>evaluation. extractCategoryFromEvaluation evaluation = c) evaluations)"

fun skillOf :: "SkillScores \<Rightarrow> ExcelSkillCategory \<Rightarrow> real" where
  "skillOf s BASIC_FORMULAS = basicFormulas s"
| "skillOf s DATA_MANIPULATION = dataManipulation s"
| "skillOf s PIVOT_TABLES = pivotTables s"
| "skillOf s ADVANCED_FUNCTIONS = advancedFunctions s"
| "skillOf s DATA_VISUALIZATION = dataVisualization s"
| "skillOf s MACROS_VBA = macrosVBA s"
| "skillOf s DATA_MODELING = dataModeling s"

definition overallWeights :: "(ExcelSkillCategory \<times> real) list" where
  "overallWeights =
     [(BASIC_FORMULAS, 0.2), (DATA_MANIPULATION, 0.25), (PIVOT_TABLES, 0.2),
      (ADVANCED_FUNCTIONS, 0.15), (DATA_VISUALIZATION, 0.1), (MACROS_VBA, 0.05),
      (DATA_MODELING, 0.05)]"

text \<open>One round of the \<^verbatim>\<open>forEach\<close> over the weights: the state is
  \<open>(totalWeight, weightedSum)\<close>; the weight of the entry is the binary64 value of its
  literal.\<close>

definition addWeighted :: "SkillScores \<Rightarrow> real \<times> real \<Rightarrow> ExcelSkillCategory \<times> real \<Rightarrow> real \<times> real" where
  "addWeighted skillScores acc entry =
     (let s = skillOf skillScores (fst entry);
          weight = toDouble (snd entry)
      in if s > 0
         then (toDouble (fst acc + weight), toDouble (snd acc + toDouble (s * weight)))
         else acc)"

definition calculateSkillScores :: "EvaluationResult list \<Rightarrow> SkillScores" where
  "calculateSkillScores evaluations =
     (let skillScores =
            \<lparr>overall = 0,
             basicFormulas = calculateCategoryAverage (categoryScores evaluations BASIC_FORMULAS),
             dataManipulation =
               calculateCategoryAverage (categoryScores evaluations DATA_MANIPULATION),
             pivotTables = calculateCategoryAverage (categoryScores evaluations PIVOT_TABLES),
             advancedFunctions =
               calculateCategoryAverage (categoryScores evaluations ADVANCED_FUNCTIONS),
             dataVisualization =
               calculateCategoryAverage (categoryScores evaluations DATA_VISUALIZATION),
             macrosVBA = calculateCategoryAverage (categoryScores evaluations MACROS_VBA),
             dataModeling = calculateCategoryAverage (categoryScores evaluations DATA_MODELING)\<rparr>;
          acc = foldl (addWeighted skillScores) (0, 0) overallWeights
      in skillScores\<lparr>overall := (if fst acc > 0 then toDouble (snd acc / fst acc) else 0)\<rparr>)"

section \<open>Question repository and question engine (AdaptiveQuestionEngine)\<close>

record DbQuestion = ExcelQuestion +
  d_id :: string
  usageCount :: nat
  createdAt :: nat



text \<open>\<^verbatim>\<open>uuidv4()\<close> is an external generator: the argument \<open>uuid\<close> is the identifier it
  returns for this call.\<close>

definition mapExcelQuestionToQuestion :: "string \<Rightarrow> ExcelQuestion \<Rightarrow> Question" where
  "mapExcelQuestionToQuestion uuid excelQuestion =
     \<lparr>q_id = uuid, category = x_category excelQuestion,
      difficulty = x_difficulty excelQuestion, q_text = x_text excelQuestion,
      expectedAnswerPatterns = map pattern (expectedAnswers excelQuestion),
      evaluationCriteria = evaluationRubric excelQuestion, followUpTriggers = []\<rparr>"


definition getAskedQuestions :: "InterviewSession \<Rightarrow> Question list" where
  "getAskedQuestions session =
     List.map_filter meta_question
       (filter (\<lambda>turn. t_type turn = QuestionTurn) (conversationHistory session))"

text \<open>\<^verbatim>\<open>askedQuestions.slice(-count)\<close>; \<^verbatim>\<open>slice(-0)\<close> is the whole array.\<close>

definition getRecentQuestions :: "InterviewSession \<Rightarrow> nat \<Rightarrow> Question list" where
  "getRecentQuestions session count =
     (let askedQuestions = getAskedQuestions session
      in if count = 0 then askedQuestions
         else drop (length askedQuestions - count) askedQuestions)"

text \<open>\<^verbatim>\<open>Math.random()\<close> is an external source: \<open>random i\<close> is the value of its \<open>i\<close>-th call
  here, a number in \<open>[0, 1)\<close>.\<close>

definition getQuestionScores :: "(nat \<Rightarrow> real) \<Rightarrow> InterviewSession \<Rightarrow> Question list \<Rightarrow> real list" where
  "getQuestionScores random session questions =
     map (\<lambda>i. random i * 100) [0..<length questions]"

definition getExpectedQuestionsForCategory :: "ExcelSkillCategory \<Rightarrow> ExcelLevel \<Rightarrow> int" where
  "getExpectedQuestionsForCategory cat level =
     (let weights = roleQuestionWeights level;
          weight = (case map_of weights cat of None \<Rightarrow> 0 | Some w \<Rightarrow> w);
          totalQuestions = 15
      in \<lceil>totalQuestions * weight\<rceil>)"

record SkillCoverage =
  categories :: "(ExcelSkillCategory \<times> real) list"
  overallCoverage :: real
  missingAreas :: "ExcelSkillCategory list"

text \<open>One round of the \<^verbatim>\<open>forEach\<close> over the role weights: the state is
  \<open>(categoryCoverage, totalWeight, coveredWeight)\<close>.\<close>

definition coverageStep ::
  "Question list \<Rightarrow> ExcelLevel \<Rightarrow> (ExcelSkillCategory \<times> real) list \<times> real \<times> real
     \<Rightarrow> ExcelSkillCategory \<times> real \<Rightarrow> (ExcelSkillCategory \<times> real) list \<times> real \<times> real" where
  "coverageStep askedQuestions level acc entry =
     (let categoryQuestions = filter (\<lambda>q. category q = fst entry) askedQuestions;
          expectedQuestions = getExpectedQuestionsForCategory (fst entry) level;
          coverage = (if expectedQuestions > 0
                      then real (length categoryQuestions) / real_of_int expectedQuestions
                      else 0)
      in (fst acc @ [(fst entry, min coverage 1.0)],
          fst (snd acc) + snd entry,
          snd (snd acc) + coverage * snd entry))"

definition validateQuestionCoverage :: "InterviewSession \<Rightarrow> SkillCoverage" where
  "validateQuestionCoverage session =
     (let askedQuestions = getAskedQuestions session;
          roleWeights = roleQuestionWeights (roleLevel session);
          acc = foldl (coverageStep askedQuestions (roleLevel session)) ([], 0, 0) roleWeights;
          categoryCoverage = fst acc;
          totalWeight = fst (snd acc);
          coveredWeight = snd (snd acc)
      in \<lparr>categories = categoryCoverage,
          overallCoverage = (if totalWeight > 0 then coveredWeight / totalWeight else 0),
          missingAreas = map fst (filter (\<lambda>entry. snd entry < 0.5) categoryCoverage)\<rparr>)"

text \<open>
  Two priorities that are equal as exact numbers can differ once rounded, and the order of
  the sort follows the rounded ones: the arithmetic here is that of binary64. The weight is
  the binary64 value of its literal. The coverage record holds the exact capped ratio
  \<open>min (asked / expected) 1\<close>; the number the code holds is its rounding (a quotient of two
  integers is rounded once, and rounding commutes with the cap at 1). The difference of two
  binary64 numbers has the sign of their exact difference, so the comparator orders the
  priorities as numbers. The sort of the source is stable and descending in priority, as is
  \<open>sort_key\<close> on the negated priority; \<^verbatim>\<open>categoryScores[0]\<close> of an empty array is
  \<^verbatim>\<open>undefined\<close>.
\<close>

definition selectNextCategory :: "InterviewSession \<Rightarrow> SkillCoverage \<Rightarrow> error + ExcelSkillCategory" where
  "selectNextCategory session coverage =
     (let roleWeights = roleQuestionWeights (roleLevel session);
          priorities =
            map (\<lambda>entry.
                   let weight = toDouble (snd entry);
                       currentCoverage =
                         (case map_of (categories coverage) (fst entry) of
                            None \<Rightarrow> 0 | Some c \<Rightarrow> toDouble c)
                   in (fst entry, toDouble (weight * toDouble (1 - currentCoverage))))
              roleWeights
      in case sort_key (\<lambda>entry. - snd entry) priorities of
           [] \<Rightarrow> Inl TypeError
         | first # rest \<Rightarrow> Inr (fst first))"

definition adaptDifficulty :: "(nat \<Rightarrow> real) \<Rightarrow> InterviewSession \<Rightarrow> ExcelSkillCategory \<Rightarrow> DifficultyLevel" where
  "adaptDifficulty random session cat =
     (let recentQuestions = getRecentQuestions session 3;
          categoryQuestions = filter (\<lambda>q. category q = cat) recentQuestions
      in if length categoryQuestions = 0 then basic
         else let scores = getQuestionScores random session categoryQuestions;
                  avgScore = (if length scores > 0
                              then foldl (\<lambda>a b. a + b) 0 scores / real (length scores)
                              else 50)
              in if avgScore \<ge> 80 then advanced
                 else if avgScore \<ge> 60 then intermediate
                 else basic)"





section \<open>Interview session repository (InterviewSessionRepository)\<close>

text \<open>The database: the ids of the candidate rows, the interview session rows, the question
  rows and the evaluation result rows (each with the id of its session). Every operation
  returns its outcome together with the database it leaves behind.\<close>

record Database =
  candidateRows :: "string list"
  sessionRows :: "InterviewSession list"
  questionRows :: "DbQuestion list"
  evaluationRows :: "(string \<times> EvaluationResult) list"

record UpdateInterviewSessionData =
  u_status :: "InterviewStatus option"
  u_currentQuestionIndex :: "nat option"
  u_conversationHistory :: "ConversationTurn list option"
  u_skillAssessment :: "SkillScores option"
  u_endTime :: "nat option"

definition noChange :: UpdateInterviewSessionData where
  "noChange =
     \<lparr>u_status = None, u_currentQuestionIndex = None, u_conversationHistory = None,
      u_skillAssessment = None, u_endTime = None\<rparr>"

definition zeroScores :: SkillScores where
  "zeroScores =
     \<lparr>overall = 0, basicFormulas = 0, dataManipulation = 0, pivotTables = 0,
      advancedFunctions = 0, dataVisualization = 0, macrosVBA = 0, dataModeling = 0\<rparr>"

text \<open>\<^verbatim>\<open>validateId\<close>: the empty string is the only falsy string.\<close>

definition validateId :: "string \<Rightarrow> error option" where
  "validateId i = (if i = [] then Some (Error ''Invalid ID provided'') else None)"

definition findUnique :: "Database \<Rightarrow> string \<Rightarrow> InterviewSession option" where
  "findUnique db i = find (\<lambda>s. s_id s = i) (sessionRows db)"

definition findById :: "Database \<Rightarrow> string \<Rightarrow> error + InterviewSession option" where
  "findById db i =
     (case validateId i of Some e \<Rightarrow> Inl e | None \<Rightarrow> Inr (findUnique db i))"

definition findActiveByCandidateId :: "Database \<Rightarrow> string \<Rightarrow> error + InterviewSession option" where
  "findActiveByCandidateId db cid =
     (case validateId cid of
        Some e \<Rightarrow> Inl e
      | None \<Rightarrow> Inr (find (\<lambda>s. candidateId s = cid \<and> status s = active) (sessionRows db)))"

text \<open>The id and the start time of a new row are supplied by the database: \<open>newId\<close> and
  \<open>now\<close>. The id column is the primary key, so an id already present is refused.\<close>

definition create ::
  "Database \<Rightarrow> string \<Rightarrow> nat \<Rightarrow> string \<Rightarrow> ExcelLevel \<Rightarrow> (error + InterviewSession) \<times> Database" where
  "create db newId now cid level =
     (if cid = [] then (Inl (Error ''Missing required fields: candidateId''), db)
      else if cid \<notin> set (candidateRows db)
      then (Inl (Error (''Candidate with ID '' @ cid @ '' not found'')), db)
      else case findActiveByCandidateId db cid of
             Inl e \<Rightarrow> (Inl e, db)
           | Inr (Some activeSession) \<Rightarrow>
               (Inl (Error (''Candidate already has an active interview session: ''
                            @ s_id activeSession)), db)
           | Inr None \<Rightarrow>
               (if newId \<in> set (map s_id (sessionRows db))
                then (Inl (UniqueConstraintFailed newId), db)
                else let row = \<lparr>s_id = newId, candidateId = cid, roleLevel = level,
                                 status = active, currentQuestionIndex = 0,
                                 conversationHistory = [], skillAssessment = zeroScores,
                                 startTime = now, endTime = None\<rparr>
                     in (Inr row, db\<lparr>sessionRows := sessionRows db @ [row]\<rparr>)))"

definition applyUpdate :: "UpdateInterviewSessionData \<Rightarrow> InterviewSession \<Rightarrow> InterviewSession" where
  "applyUpdate updateData s =
     s\<lparr>status := (case u_status updateData of None \<Rightarrow> status s | Some v \<Rightarrow> v),
       currentQuestionIndex :=
         (case u_currentQuestionIndex updateData of
            None \<Rightarrow> currentQuestionIndex s | Some v \<Rightarrow> v),
       conversationHistory :=
         (case u_conversationHistory updateData of
            None \<Rightarrow> conversationHistory s | Some v \<Rightarrow> v),
       skillAssessment :=
         (case u_skillAssessment updateData of None \<Rightarrow> skillAssessment s | Some v \<Rightarrow> v),
       endTime := (case u_endTime updateData of None \<Rightarrow> endTime s | Some v \<Rightarrow> Some v)\<rparr>"

definition update ::
  "Database \<Rightarrow> string \<Rightarrow> UpdateInterviewSessionData \<Rightarrow> (error + InterviewSession) \<times> Database" where
  "update db i updateData =
     (case validateId i of
        Some e \<Rightarrow> (Inl e, db)
      | None \<Rightarrow>
          (case findUnique db i of
             None \<Rightarrow> (Inl (RecordNotFound i), db)
           | Some s \<Rightarrow>
               (Inr (applyUpdate updateData s),
                db\<lparr>sessionRows :=
                      map (\<lambda>r. if s_id r = i then applyUpdate updateData r else r)
                        (sessionRows db)\<rparr>)))"

definition addConversationTurn ::
  "Database \<Rightarrow> string \<Rightarrow> ConversationTurn \<Rightarrow> (error + InterviewSession) \<times> Database" where
  "addConversationTurn db sid turn =
     (case validateId sid of
        Some e \<Rightarrow> (Inl e, db)
      | None \<Rightarrow>
          (case findById db sid of
             Inl e \<Rightarrow> (Inl e, db)
           | Inr None \<Rightarrow> (Inl (Error (''Interview session '' @ sid @ '' not found'')), db)
           | Inr (Some session) \<Rightarrow>
               update db sid
                 (noChange\<lparr>u_conversationHistory :=
                             Some (conversationHistory session @ [turn])\<rparr>)))"

definition completeSession ::
  "Database \<Rightarrow> nat \<Rightarrow> string \<Rightarrow> SkillScores \<Rightarrow> (error + InterviewSession) \<times> Database" where
  "completeSession db now sid finalScores =
     update db sid
       (noChange\<lparr>u_status := Some completed, u_endTime := Some now,
                  u_skillAssessment := Some finalScores\<rparr>)"

definition pauseSession :: "Database \<Rightarrow> string \<Rightarrow> (error + InterviewSession) \<times> Database" where
  "pauseSession db sid = update db sid (noChange\<lparr>u_status := Some paused\<rparr>)"

definition resumeSession :: "Database \<Rightarrow> string \<Rightarrow> (error + InterviewSession) \<times> Database" where
  "resumeSession db sid = update db sid (noChange\<lparr>u_status := Some active\<rparr>)"

section \<open>Interview orchestrator (InterviewOrchestrator)\<close>

text \<open>Every method catches, logs and rethrows: the outcome is that of its body.\<close>

definition startInterview ::
  "Database \<Rightarrow> string \<Rightarrow> nat \<Rightarrow> string \<Rightarrow> ExcelLevel \<Rightarrow> (error + InterviewSession) \<times> Database" where
  "startInterview db newId now cid level = create db newId now cid level"

fun decimal :: "nat \<Rightarrow> string" where
  "decimal n =
     (if n < 10 then [char_of (48 + n)]
      else decimal (n div 10) @ [char_of (48 + n mod 10)])"

declare decimal.simps [simp del]

definition submitResponse :: "Database \<Rightarrow> nat \<Rightarrow> string \<Rightarrow> string \<Rightarrow> (error + unit) \<times> Database" where
  "submitResponse db now sid resp =
     (case findById db sid of
        Inl e \<Rightarrow> (Inl e, db)
      | Inr None \<Rightarrow> (Inl (Error (''Interview session '' @ sid @ '' not found'')), db)
      | Inr (Some session) \<Rightarrow>
          (case addConversationTurn db sid
                  \<lparr>t_id = ''turn-'' @ decimal now, t_type = ResponseTurn, content = resp,
                   timestamp = now, meta_question = None,
                   meta_questionIndex = Some (currentQuestionIndex session)\<rparr> of
             (Inl e, db1) \<Rightarrow> (Inl e, db1)
           | (Inr added, db1) \<Rightarrow>
               (case update db1 sid
                       (noChange\<lparr>u_currentQuestionIndex :=
                                   Some (currentQuestionIndex session + 1)\<rparr>) of
                  (Inl e, db2) \<Rightarrow> (Inl e, db2)
                | (Inr updated, db2) \<Rightarrow> (Inr (), db2))))"

definition finalScores :: SkillScores where
  "finalScores =
     \<lparr>overall = 75, basicFormulas = 80, dataManipulation = 70, pivotTables = 75,
      advancedFunctions = 70, dataVisualization = 80, macrosVBA = 60, dataModeling = 65\<rparr>"

definition completeInterview ::
  "Database \<Rightarrow> nat \<Rightarrow> string \<Rightarrow> (error + InterviewSession) \<times> Database" where
  "completeInterview db now sid =
     (case findById db sid of
        Inl e \<Rightarrow> (Inl e, db)
      | Inr None \<Rightarrow> (Inl (Error (''Interview session '' @ sid @ '' not found'')), db)
      | Inr (Some session) \<Rightarrow> completeSession db now sid finalScores)"

definition pauseInterview :: "Database \<Rightarrow> string \<Rightarrow> (error + InterviewSession) \<times> Database" where
  "pauseInterview db sid = pauseSession db sid"

definition resumeInterview :: "Database \<Rightarrow> string \<Rightarrow> (error + InterviewSession) \<times> Database" where
  "resumeInterview db sid = resumeSession db sid"

section \<open>Concrete sessions, questions and stubs\<close>

definition sumQ :: Question where
  "sumQ = mapExcelQuestionToQuestion ''q-1'' sumRangeQuestion"

definition pivotQ :: Question where
  "pivotQ = mapExcelQuestionToQuestion ''q-4'' pivotSalesQuestion"

definition questionTurn :: "Question \<Rightarrow> ConversationTurn" where
  "questionTurn q =
     \<lparr>t_id = ''turn-q'', t_type = QuestionTurn, content = q_text q, timestamp = 1,
      meta_question = Some q, meta_questionIndex = None\<rparr>"

definition pausedSession :: InterviewSession where
  "pausedSession =
     \<lparr>s_id = ''s1'', candidateId = ''c1'', roleLevel = basic, status = paused,
      currentQuestionIndex = 1, conversationHistory = [questionTurn sumQ],
      skillAssessment = zeroScores, startTime = 0, endTime = None\<rparr>"

definition activeSession :: InterviewSession where
  "activeSession =
     \<lparr>s_id = ''s2'', candidateId = ''c2'', roleLevel = basic, status = active,
      currentQuestionIndex = 0, conversationHistory = [questionTurn sumQ],
      skillAssessment = zeroScores, startTime = 0, endTime = None\<rparr>"

definition demoDb :: Database where
  "demoDb =
     \<lparr>candidateRows = [''c1'', ''c2'', ''c3''], sessionRows = [pausedSession, activeSession],
      questionRows = [], evaluationRows = []\<rparr>"

definition demoContext :: InterviewContext where
  "demoContext =
     \<lparr>sessionId = ''s2'', candidateLevel = basic, previousQuestions = [],
      currentSkillScores = zeroScores, ctx_conversationHistory = []\<rparr>"

definition stubResult :: EvaluationResult where
  "stubResult =
     \<lparr>questionId = ''q-1'', score = 40, confidence = 0.5, reasoning = ''stub'',
      partialCredits = [], suggestedFollowUp = None\<rparr>"

definition stubAI :: AIClient where
  "stubAI q resp ctx = Inr stubResult"

definition pivotEvaluation :: EvaluationResult where
  "pivotEvaluation =
     \<lparr>questionId = ''q-4'', score = 80, confidence = 0.9, reasoning = ''stub'',
      partialCredits = [], suggestedFollowUp = None\<rparr>"

definition sessionAsking :: "ExcelLevel \<Rightarrow> Question list \<Rightarrow> InterviewSession" where
  "sessionAsking level qs =
     \<lparr>s_id = ''s3'', candidateId = ''c3'', roleLevel = level, status = active,
      currentQuestionIndex = length qs, conversationHistory = map questionTurn qs,
      skillAssessment = zeroScores, startTime = 0, endTime = None\<rparr>"


text \<open>\<open>n\<close> basic-formula questions as the engine issues them from the bank, each under its
  own identifier.\<close>

definition basicFormulaQuestions :: "nat \<Rightarrow> Question list" where
  "basicFormulaQuestions n =
     map (\<lambda>i. mapExcelQuestionToQuestion (''asked-'' @ decimal i)
                (if even i then sumRangeQuestion else averageRangeQuestion))
       [0..<n]"

text \<open>\<open>n\<close> questions issued from one bank entry, and the whole bank issued once, each question
  under its own identifier.\<close>

definition askedFrom :: "ExcelQuestion \<Rightarrow> nat \<Rightarrow> Question list" where
  "askedFrom x n = map (\<lambda>i. mapExcelQuestionToQuestion (''asked-'' @ decimal i) x) [0..<n]"


text \<open>A basic-level session in which two priorities are equal as exact numbers:
  \<open>0.4 * (1 - 5 / 6)\<close> for basic formulas and \<open>0.2 * (1 - 2 / 3)\<close> for data visualization.\<close>

definition tieSession :: InterviewSession where
  "tieSession =
     sessionAsking basic
       (askedFrom sumRangeQuestion 5 @ askedFrom lookupSalaryQuestion 5
        @ askedFrom trendChartQuestion 2 @ askedFrom pivotSalesQuestion 2)"

section \<open>Repository lemmas\<close>

lemma s_id_applyUpdate: "s_id (applyUpdate d s) = s_id s"
  by (simp add: applyUpdate_def)

lemma find_after_update:
  "find (\<lambda>r. s_id r = i) (map (\<lambda>r. if s_id r = i then applyUpdate d r else r) rows)
     = map_option (applyUpdate d) (find (\<lambda>r. s_id r = i) rows)"
  by (induction rows) (simp_all add: s_id_applyUpdate)

lemma update_existing:
  assumes "i \<noteq> []" and "findUnique db i = Some s"
  shows "\<exists>db'. update db i d = (Inr (applyUpdate d s), db')
           \<and> findUnique db' i = Some (applyUpdate d s)
           \<and> evaluationRows db' = evaluationRows db
           \<and> candidateRows db' = candidateRows db
           \<and> length (sessionRows db') = length (sessionRows db)"
  using assms by (simp add: update_def validateId_def findUnique_def find_after_update)

lemma update_missing:
  assumes "i = [] \<or> findUnique db i = None"
  shows "\<exists>e. update db i d = (Inl e, db)"
  using assms by (auto simp add: update_def validateId_def)

section \<open>The final score vector stored by completeInterview\<close>

text \<open>
  C10. For every session that exists, \<open>completeInterview\<close> succeeds and stores the fixed vector
  (overall 75, basicFormulas 80, dataManipulation 70, pivotTables 75, advancedFunctions 70,
  dataVisualization 80, macrosVBA 60, dataModeling 65) as the skill scores of the session,
  now completed, whatever its conversation history, scores and evaluation results were.
\<close>

theorem completeInterview_stores_fixed_scores:
  assumes "sid \<noteq> []" and "findUnique db sid = Some s"
  shows "\<exists>s' db'. completeInterview db now sid = (Inr s', db')
           \<and> findUnique db' sid = Some s'
           \<and> status s' = completed \<and> endTime s' = Some now
           \<and> conversationHistory s' = conversationHistory s
           \<and> skillAssessment s' =
               \<lparr>overall = 75, basicFormulas = 80, dataManipulation = 70, pivotTables = 75,
                advancedFunctions = 70, dataVisualization = 80, macrosVBA = 60,
                dataModeling = 65\<rparr>"
proof -
  let ?d = "noChange\<lparr>u_status := Some completed, u_endTime := Some now,
                      u_skillAssessment := Some finalScores\<rparr>"
  obtain db' where u: "update db sid ?d = (Inr (applyUpdate ?d s), db')"
    and f: "findUnique db' sid = Some (applyUpdate ?d s)"
    using update_existing [OF assms] by blast
  have "completeInterview db now sid = (Inr (applyUpdate ?d s), db')"
    using assms u by (simp add: completeInterview_def findById_def validateId_def
        completeSession_def)
  moreover have "status (applyUpdate ?d s) = completed"
    and "endTime (applyUpdate ?d s) = Some now"
    and "conversationHistory (applyUpdate ?d s) = conversationHistory s"
    and "skillAssessment (applyUpdate ?d s) = finalScores"
    by (simp_all add: applyUpdate_def noChange_def)
  ultimately show ?thesis
    using f by (simp add: finalScores_def)
qed

theorem completeInterview_stores_fixed_scores_witness:
  "\<exists>s' db'. completeInterview demoDb 9 ''s2'' = (Inr s', db')
     \<and> findUnique db' ''s2'' = Some s'
     \<and> status s' = completed \<and> endTime s' = Some 9
     \<and> conversationHistory s' = conversationHistory activeSession
     \<and> skillAssessment s' =
         \<lparr>overall = 75, basicFormulas = 80, dataManipulation = 70, pivotTables = 75,
          advancedFunctions = 70, dataVisualization = 80, macrosVBA = 60,
          dataModeling = 65\<rparr>"
proof -
  have a: "''s2'' \<noteq> []" by simp
  have b: "findUnique demoDb ''s2'' = Some activeSession"
    by (simp add: findUnique_def demoDb_def pausedSession_def activeSession_def)
  show ?thesis
    using completeInterview_stores_fixed_scores [OF a b, of 9] .
qed

section \<open>Session transitions\<close>

lemma find_None_filter: "find P xs = None \<Longrightarrow> filter P xs = []"
  by (induction xs) (auto split: if_splits)

lemma submitResponse_existing:
  assumes "sid \<noteq> []" and "findUnique db sid = Some s"
  shows "\<exists>db'. submitResponse db now sid resp = (Inr (), db')"
proof -
  let ?turn = "\<lparr>t_id = ''turn-'' @ decimal now, t_type = ResponseTurn, content = resp,
                 timestamp = now, meta_question = None,
                 meta_questionIndex = Some (currentQuestionIndex s)\<rparr>"
  let ?d1 = "noChange\<lparr>u_conversationHistory := Some (conversationHistory s @ [?turn])\<rparr>"
  let ?d2 = "noChange\<lparr>u_currentQuestionIndex := Some (currentQuestionIndex s + 1)\<rparr>"
  obtain db1 where u1: "update db sid ?d1 = (Inr (applyUpdate ?d1 s), db1)"
    and f1: "findUnique db1 sid = Some (applyUpdate ?d1 s)"
    using update_existing [OF assms] by blast
  obtain db2 where u2: "update db1 sid ?d2 = (Inr (applyUpdate ?d2 (applyUpdate ?d1 s)), db2)"
    using update_existing [OF assms(1) f1] by blast
  have a: "addConversationTurn db sid ?turn = (Inr (applyUpdate ?d1 s), db1)"
    using assms u1 by (simp add: addConversationTurn_def findById_def validateId_def)
  have "submitResponse db now sid resp = (Inr (), db2)"
    using assms a u2 by (simp add: submitResponse_def findById_def validateId_def)
  then show ?thesis by blast
qed

text \<open>
  C1, as the code has it. For every session that exists, whatever its status,
  \<open>submitResponse\<close> succeeds, appends a response turn tagged with the current question index
  to the conversation history and advances the question index by exactly one; status and
  skill scores stay as they were, and no evaluation result is recorded.
\<close>

theorem submitResponse_appends_and_advances:
  assumes "sid \<noteq> []" and "findUnique db sid = Some s"
  shows "\<exists>db'. submitResponse db now sid resp = (Inr (), db')
           \<and> findUnique db' sid =
               Some (s\<lparr>currentQuestionIndex := currentQuestionIndex s + 1,
                        conversationHistory :=
                          conversationHistory s
                          @ [\<lparr>t_id = ''turn-'' @ decimal now, t_type = ResponseTurn,
                              content = resp, timestamp = now, meta_question = None,
                              meta_questionIndex = Some (currentQuestionIndex s)\<rparr>]\<rparr>)
           \<and> evaluationRows db' = evaluationRows db"
proof -
  let ?turn = "\<lparr>t_id = ''turn-'' @ decimal now, t_type = ResponseTurn, content = resp,
                 timestamp = now, meta_question = None,
                 meta_questionIndex = Some (currentQuestionIndex s)\<rparr>"
  let ?d1 = "noChange\<lparr>u_conversationHistory := Some (conversationHistory s @ [?turn])\<rparr>"
  let ?d2 = "noChange\<lparr>u_currentQuestionIndex := Some (currentQuestionIndex s + 1)\<rparr>"
  obtain db1 where u1: "update db sid ?d1 = (Inr (applyUpdate ?d1 s), db1)"
    and f1: "findUnique db1 sid = Some (applyUpdate ?d1 s)"
    and e1: "evaluationRows db1 = evaluationRows db"
    using update_existing [OF assms] by blast
  obtain db2 where u2: "update db1 sid ?d2 = (Inr (applyUpdate ?d2 (applyUpdate ?d1 s)), db2)"
    and f2: "findUnique db2 sid = Some (applyUpdate ?d2 (applyUpdate ?d1 s))"
    and e2: "evaluationRows db2 = evaluationRows db1"
    using update_existing [OF assms(1) f1] by blast
  have a: "addConversationTurn db sid ?turn = (Inr (applyUpdate ?d1 s), db1)"
    using assms u1 by (simp add: addConversationTurn_def findById_def validateId_def)
  have "submitResponse db now sid resp = (Inr (), db2)"
    using assms a u2 by (simp add: submitResponse_def findById_def validateId_def)
  moreover have "applyUpdate ?d2 (applyUpdate ?d1 s) =
      s\<lparr>currentQuestionIndex := currentQuestionIndex s + 1,
        conversationHistory := conversationHistory s @ [?turn]\<rparr>"
    by (simp add: applyUpdate_def noChange_def)
  ultimately show ?thesis
    using f2 e1 e2 by simp
qed

theorem submitResponse_appends_and_advances_witness:
  "\<exists>db'. submitResponse demoDb 7 ''s2'' ''=SUM(A1:A10)'' = (Inr (), db')
     \<and> findUnique db' ''s2'' =
         Some (activeSession\<lparr>currentQuestionIndex := currentQuestionIndex activeSession + 1,
                 conversationHistory :=
                   conversationHistory activeSession
                   @ [\<lparr>t_id = ''turn-'' @ decimal 7, t_type = ResponseTurn,
                       content = ''=SUM(A1:A10)'', timestamp = 7, meta_question = None,
                       meta_questionIndex = Some (currentQuestionIndex activeSession)\<rparr>]\<rparr>)
     \<and> evaluationRows db' = evaluationRows demoDb"
proof -
  have a: "''s2'' \<noteq> []" by simp
  have b: "findUnique demoDb ''s2'' = Some activeSession"
    by (simp add: findUnique_def demoDb_def pausedSession_def activeSession_def)
  show ?thesis
    using submitResponse_appends_and_advances [OF a b, of 7 "''=SUM(A1:A10)''"] .
qed

text \<open>
  C1 as stated fails: the active session \<open>s2\<close> has been asked the SUM question and answers it
  with the expected formula, which the rule tier scores 95; after \<open>submitResponse\<close> the
  evaluation history is still empty and the skill scores of the session are still all zero.
\<close>

theorem submitResponse_no_evaluation_counterexample:
  "status activeSession = active
   \<and> map_option score (tryRuleBasedEvaluation sumQ ''=SUM(A1:A10)'') = Some 95
   \<and> fst (submitResponse demoDb 7 ''s2'' ''=SUM(A1:A10)'') = Inr ()
   \<and> evaluationRows (snd (submitResponse demoDb 7 ''s2'' ''=SUM(A1:A10)'')) = []
   \<and> map_option skillAssessment
        (findUnique (snd (submitResponse demoDb 7 ''s2'' ''=SUM(A1:A10)'')) ''s2'')
      = Some zeroScores"
  by code_simp

text \<open>
  C2, as the code has it. No transition looks at the status of the session. On every session
  that exists, whatever its status, pause succeeds and leaves the session paused (on a paused
  session it changes nothing and reports success), resume succeeds and leaves it active, and
  \<open>submitResponse\<close> succeeds. A transition fails only when the session id is empty or names
  no session, and then the database is left as it was.
\<close>

theorem transitions_ignore_status:
  "(sid \<noteq> [] \<and> findUnique db sid = Some s \<longrightarrow>
      (\<exists>db'. pauseInterview db sid = (Inr (s\<lparr>status := paused\<rparr>), db')
         \<and> findUnique db' sid = Some (s\<lparr>status := paused\<rparr>))
      \<and> (\<exists>db'. resumeInterview db sid = (Inr (s\<lparr>status := active\<rparr>), db')
         \<and> findUnique db' sid = Some (s\<lparr>status := active\<rparr>))
      \<and> (\<exists>db'. submitResponse db now sid resp = (Inr (), db')))
   \<and> (sid = [] \<or> findUnique db sid = None \<longrightarrow>
      (\<exists>e. pauseInterview db sid = (Inl e, db))
      \<and> (\<exists>e. resumeInterview db sid = (Inl e, db))
      \<and> (\<exists>e. submitResponse db now sid resp = (Inl e, db)))"
proof (intro conjI impI)
  assume h: "sid \<noteq> [] \<and> findUnique db sid = Some s"
  let ?p = "noChange\<lparr>u_status := Some paused\<rparr>"
  let ?a = "noChange\<lparr>u_status := Some active\<rparr>"
  have p: "applyUpdate ?p s = s\<lparr>status := paused\<rparr>"
    and a: "applyUpdate ?a s = s\<lparr>status := active\<rparr>"
    by (simp_all add: applyUpdate_def noChange_def)
  from h have h1: "sid \<noteq> []" and h2: "findUnique db sid = Some s" by simp_all
  show "\<exists>db'. pauseInterview db sid = (Inr (s\<lparr>status := paused\<rparr>), db')
          \<and> findUnique db' sid = Some (s\<lparr>status := paused\<rparr>)"
    using update_existing [OF h1 h2, of ?p] p
    by (auto simp add: pauseInterview_def pauseSession_def)
  show "\<exists>db'. resumeInterview db sid = (Inr (s\<lparr>status := active\<rparr>), db')
          \<and> findUnique db' sid = Some (s\<lparr>status := active\<rparr>)"
    using update_existing [OF h1 h2, of ?a] a
    by (auto simp add: resumeInterview_def resumeSession_def)
  show "\<exists>db'. submitResponse db now sid resp = (Inr (), db')"
    using submitResponse_existing [OF h1 h2, of now resp] by blast
next
  assume h: "sid = [] \<or> findUnique db sid = None"
  show "\<exists>e. pauseInterview db sid = (Inl e, db)"
    using update_missing [OF h] by (simp add: pauseInterview_def pauseSession_def)
  show "\<exists>e. resumeInterview db sid = (Inl e, db)"
    using update_missing [OF h] by (simp add: resumeInterview_def resumeSession_def)
  show "\<exists>e. submitResponse db now sid resp = (Inl e, db)"
    using h by (auto simp add: submitResponse_def findById_def validateId_def)
qed

theorem transitions_ignore_status_witness:
  "((\<exists>db'. pauseInterview demoDb ''s1'' = (Inr (pausedSession\<lparr>status := paused\<rparr>), db')
       \<and> findUnique db' ''s1'' = Some (pausedSession\<lparr>status := paused\<rparr>))
     \<and> (\<exists>db'. resumeInterview demoDb ''s1'' = (Inr (pausedSession\<lparr>status := active\<rparr>), db')
       \<and> findUnique db' ''s1'' = Some (pausedSession\<lparr>status := active\<rparr>))
     \<and> (\<exists>db'. submitResponse demoDb 7 ''s1'' ''x'' = (Inr (), db')))
   \<and> ((\<exists>e. pauseInterview demoDb ''s0'' = (Inl e, demoDb))
     \<and> (\<exists>e. resumeInterview demoDb ''s0'' = (Inl e, demoDb))
     \<and> (\<exists>e. submitResponse demoDb 7 ''s0'' ''x'' = (Inl e, demoDb)))"
proof -
  have a: "''s1'' \<noteq> [] \<and> findUnique demoDb ''s1'' = Some pausedSession"
    by (simp add: findUnique_def demoDb_def pausedSession_def activeSession_def)
  have b: "''s0'' = [] \<or> findUnique demoDb ''s0'' = None"
    by (simp add: findUnique_def demoDb_def pausedSession_def activeSession_def)
  show ?thesis
    using transitions_ignore_status [of "''s1''" demoDb pausedSession 7 "''x''"]
      transitions_ignore_status [of "''s0''" demoDb pausedSession 7 "''x''"] a b
    by blast
qed

text \<open>
  C2 as stated fails: session \<open>s1\<close> is paused; pausing it again succeeds and changes nothing,
  and a response submitted to it is accepted.
\<close>

theorem pause_on_paused_counterexample:
  "status pausedSession = paused
   \<and> pauseInterview demoDb ''s1'' = (Inr pausedSession, demoDb)
   \<and> fst (submitResponse demoDb 7 ''s1'' ''x'') = Inr ()"
  by code_simp

section \<open>Starting an interview\<close>

text \<open>
  C7, as the code has it. \<open>startInterview\<close> fails, leaving the database as it was, whenever the
  candidate already has a session in the active state; a paused session does not block it.
  It succeeds for a known candidate with no active session (given a fresh row id), and on
  success the new session is active, at question index 0, with zeroed skill scores and an
  empty history, and is then the only active session of that candidate.
\<close>

theorem startInterview_blocks_on_active_only:
  "(find (\<lambda>r. candidateId r = cid \<and> status r = active) (sessionRows db) = Some a \<longrightarrow>
      (\<exists>e. startInterview db newId now cid level = (Inl e, db)))
   \<and> (cid \<noteq> [] \<and> cid \<in> set (candidateRows db) \<and> newId \<notin> set (map s_id (sessionRows db))
        \<and> find (\<lambda>r. candidateId r = cid \<and> status r = active) (sessionRows db) = None \<longrightarrow>
      (\<exists>s db'. startInterview db newId now cid level = (Inr s, db')))
   \<and> (startInterview db newId now cid level = (Inr s, db') \<longrightarrow>
      s = \<lparr>s_id = newId, candidateId = cid, roleLevel = level, status = active,
           currentQuestionIndex = 0, conversationHistory = [],
           skillAssessment =
             \<lparr>overall = 0, basicFormulas = 0, dataManipulation = 0, pivotTables = 0,
              advancedFunctions = 0, dataVisualization = 0, macrosVBA = 0, dataModeling = 0\<rparr>,
           startTime = now, endTime = None\<rparr>
      \<and> sessionRows db' = sessionRows db @ [s]
      \<and> filter (\<lambda>r. candidateId r = cid \<and> status r = active) (sessionRows db') = [s])"
proof (intro conjI impI)
  assume "find (\<lambda>r. candidateId r = cid \<and> status r = active) (sessionRows db) = Some a"
  then show "\<exists>e. startInterview db newId now cid level = (Inl e, db)"
    by (simp add: startInterview_def create_def findActiveByCandidateId_def validateId_def)
next
  assume "cid \<noteq> [] \<and> cid \<in> set (candidateRows db) \<and> newId \<notin> set (map s_id (sessionRows db))
        \<and> find (\<lambda>r. candidateId r = cid \<and> status r = active) (sessionRows db) = None"
  then show "\<exists>s db'. startInterview db newId now cid level = (Inr s, db')"
    by (simp add: startInterview_def create_def findActiveByCandidateId_def validateId_def
        Let_def)
next
  assume ok: "startInterview db newId now cid level = (Inr s, db')"
  then have none: "find (\<lambda>r. candidateId r = cid \<and> status r = active) (sessionRows db) = None"
    by (auto simp add: startInterview_def create_def findActiveByCandidateId_def
        validateId_def Let_def split: if_splits option.splits)
  from ok have s: "s = \<lparr>s_id = newId, candidateId = cid, roleLevel = level, status = active,
           currentQuestionIndex = 0, conversationHistory = [], skillAssessment = zeroScores,
           startTime = now, endTime = None\<rparr>"
    and rows: "sessionRows db' = sessionRows db @ [s]"
    by (auto simp add: startInterview_def create_def findActiveByCandidateId_def
        validateId_def Let_def split: if_splits option.splits)
  show "s = \<lparr>s_id = newId, candidateId = cid, roleLevel = level, status = active,
           currentQuestionIndex = 0, conversationHistory = [],
           skillAssessment =
             \<lparr>overall = 0, basicFormulas = 0, dataManipulation = 0, pivotTables = 0,
              advancedFunctions = 0, dataVisualization = 0, macrosVBA = 0, dataModeling = 0\<rparr>,
           startTime = now, endTime = None\<rparr>"
    using s by (simp add: zeroScores_def)
  show "sessionRows db' = sessionRows db @ [s]" by (rule rows)
  show "filter (\<lambda>r. candidateId r = cid \<and> status r = active) (sessionRows db') = [s]"
    using find_None_filter [OF none] rows s by simp
qed

theorem startInterview_blocks_on_active_only_witness:
  "(\<exists>e. startInterview demoDb ''s9'' 5 ''c2'' basic = (Inl e, demoDb))
   \<and> (\<exists>s db'. startInterview demoDb ''s9'' 5 ''c3'' basic = (Inr s, db')
        \<and> s = \<lparr>s_id = ''s9'', candidateId = ''c3'', roleLevel = basic, status = active,
             currentQuestionIndex = 0, conversationHistory = [],
             skillAssessment =
               \<lparr>overall = 0, basicFormulas = 0, dataManipulation = 0, pivotTables = 0,
                advancedFunctions = 0, dataVisualization = 0, macrosVBA = 0,
                dataModeling = 0\<rparr>,
             startTime = 5, endTime = None\<rparr>
        \<and> sessionRows db' = sessionRows demoDb @ [s]
        \<and> filter (\<lambda>r. candidateId r = ''c3'' \<and> status r = active) (sessionRows db') = [s])"
proof -
  have a: "find (\<lambda>r. candidateId r = ''c2'' \<and> status r = active) (sessionRows demoDb)
             = Some activeSession"
    by (simp add: demoDb_def pausedSession_def activeSession_def)
  have b: "''c3'' \<noteq> [] \<and> ''c3'' \<in> set (candidateRows demoDb)
        \<and> ''s9'' \<notin> set (map s_id (sessionRows demoDb))
        \<and> find (\<lambda>r. candidateId r = ''c3'' \<and> status r = active) (sessionRows demoDb) = None"
    by (simp add: demoDb_def pausedSession_def activeSession_def)
  have "\<exists>s db'. startInterview demoDb ''s9'' 5 ''c3'' basic = (Inr s, db')"
    using startInterview_blocks_on_active_only [of "''c3''" demoDb _ "''s9''" 5 basic] b
    by blast
  then obtain s db' where d: "startInterview demoDb ''s9'' 5 ''c3'' basic = (Inr s, db')"
    by blast
  have e: "s = \<lparr>s_id = ''s9'', candidateId = ''c3'', roleLevel = basic, status = active,
             currentQuestionIndex = 0, conversationHistory = [],
             skillAssessment =
               \<lparr>overall = 0, basicFormulas = 0, dataManipulation = 0, pivotTables = 0,
                advancedFunctions = 0, dataVisualization = 0, macrosVBA = 0,
                dataModeling = 0\<rparr>,
             startTime = 5, endTime = None\<rparr>
        \<and> sessionRows db' = sessionRows demoDb @ [s]
        \<and> filter (\<lambda>r. candidateId r = ''c3'' \<and> status r = active) (sessionRows db') = [s]"
    using startInterview_blocks_on_active_only [of "''c3''" demoDb _ "''s9''" 5 basic s db'] d
    by blast
  have "\<exists>e. startInterview demoDb ''s9'' 5 ''c2'' basic = (Inl e, demoDb)"
    using startInterview_blocks_on_active_only [of "''c2''" demoDb activeSession "''s9''" 5 basic]
      a by blast
  with d e show ?thesis by blast
qed

text \<open>
  C7 as stated fails: candidate \<open>c1\<close> has the paused session \<open>s1\<close>, and starting a second
  interview for \<open>c1\<close> succeeds.
\<close>

theorem start_with_paused_session_counterexample:
  "candidateId pausedSession = ''c1'' \<and> status pausedSession = paused
   \<and> findUnique demoDb ''s1'' = Some pausedSession
   \<and> fst (startInterview demoDb ''s9'' 5 ''c1'' basic) =
       Inr \<lparr>s_id = ''s9'', candidateId = ''c1'', roleLevel = basic, status = active,
            currentQuestionIndex = 0, conversationHistory = [], skillAssessment = zeroScores,
            startTime = 5, endTime = None\<rparr>"
  by code_simp

section \<open>Rule tier and confidence gate\<close>

lemma firstMatch_Some:
  "p \<in> set ps \<Longrightarrow> str_includes n (toLowerCase p) \<Longrightarrow> \<exists>p'. firstMatch n ps = Some p'"
  by (induction ps) auto

lemma whitespace_toLowerChar: "isWhiteSpace c \<Longrightarrow> toLowerChar c = c"
  by (auto simp add: isWhiteSpace_def toLowerChar_def Let_def)

lemma blank_normalizes_to_empty:
  assumes "\<forall>c\<in>set resp. isWhiteSpace c"
  shows "trim (toLowerCase resp) = []"
proof -
  have l: "toLowerCase resp = resp"
    unfolding toLowerCase_def using assms by (simp add: map_idI whitespace_toLowerChar)
  have d: "dropWhile isWhiteSpace resp = []"
    using assms by simp
  show ?thesis
    unfolding trim_def l d by simp
qed

lemma toLowerCase_empty: "toLowerCase p = [] \<longleftrightarrow> p = []"
  by (simp add: toLowerCase_def)

lemma firstMatch_empty_response: "[] \<notin> set ps \<Longrightarrow> firstMatch [] ps = None"
  by (induction ps) (auto simp add: toLowerCase_empty)

lemma mistakeCredits_empty_response:
  "\<forall>m\<in>set ms. m_pattern m \<noteq> [] \<Longrightarrow> mistakeCredits [] ms = []"
  by (simp add: mistakeCredits_def toLowerCase_empty filter_empty_conv)

lemma ruleCredits_empty_response:
  "\<forall>r\<in>set rs. condition r \<noteq> [] \<Longrightarrow> ruleCredits mx [] rs = []"
  by (simp add: ruleCredits_def toLowerCase_empty filter_empty_conv)

text \<open>
  C3, as the code has it. For every question and every answer whose normalized (lower-cased,
  then trimmed) text contains the lower-cased form of one of the question's expected-answer
  patterns, \<open>evaluateResponse\<close> returns the rule-tier result at once, with the fixed score 95
  and confidence 0.9 (above the gate of 0.8), and makes no call to the AI tier.
\<close>

theorem pattern_match_returns_95_without_ai:
  assumes "p \<in> set (expectedAnswerPatterns q)"
    and "str_includes (trim (toLowerCase resp)) (toLowerCase p)"
  shows "\<exists>res. evaluateResponse ai q resp ctx = (Inr res, 0)
           \<and> tryRuleBasedEvaluation q resp = Some res
           \<and> questionId res = q_id q \<and> score res = 95 \<and> confidence res = 0.9
           \<and> confidence res > 0.8"
proof -
  obtain p' where m: "firstMatch (trim (toLowerCase resp)) (expectedAnswerPatterns q) = Some p'"
    using firstMatch_Some [OF assms] by blast
  let ?res = "\<lparr>questionId = q_id q, score = 95, confidence = 0.9,
                reasoning = ''Response matches expected pattern: '' @ p',
                partialCredits =
                  [\<lparr>criterion = ''Exact Match'', points = 95,
                    pc_reasoning = ''Response contains the expected formula or concept''\<rparr>],
                suggestedFollowUp = None\<rparr>"
  have t: "tryRuleBasedEvaluation q resp = Some ?res"
    using m by (simp add: tryRuleBasedEvaluation_def)
  then have "evaluateResponse ai q resp ctx = (Inr ?res, 0)"
    by (simp add: evaluateResponse_def)
  with t show ?thesis by simp
qed

theorem pattern_match_returns_95_without_ai_witness:
  "\<exists>res. evaluateResponse stubAI sumQ '' Use =sum(a1:a10) '' demoContext = (Inr res, 0)
     \<and> tryRuleBasedEvaluation sumQ '' Use =sum(a1:a10) '' = Some res
     \<and> questionId res = q_id sumQ \<and> score res = 95 \<and> confidence res = 0.9
     \<and> confidence res > 0.8"
proof -
  have a: "''=SUM(A1:A10)'' \<in> set (expectedAnswerPatterns sumQ)"
    by code_simp
  have b: "str_includes (trim (toLowerCase '' Use =sum(a1:a10) ''))
             (toLowerCase ''=SUM(A1:A10)'')"
    by code_simp
  show ?thesis
    using pattern_match_returns_95_without_ai [OF a b, of stubAI demoContext] .
qed

text \<open>
  C3 as stated fails: the answer \<open>SUM(A1:A10)\<close> to the SUM question matches the bank's pattern
  \<open>SUM(A1:A10)\<close>, whose associated score is 80, and is scored 95.
\<close>

theorem pattern_score_ignored_counterexample:
  "firstMatch (trim (toLowerCase ''SUM(A1:A10)'')) (expectedAnswerPatterns sumQ)
     = Some ''SUM(A1:A10)''
   \<and> map_of (map (\<lambda>a. (pattern a, ea_score a)) (expectedAnswers sumRangeQuestion))
        ''SUM(A1:A10)'' = Some 80
   \<and> map_sum id score (fst (evaluateResponse stubAI sumQ ''SUM(A1:A10)'' demoContext)) = Inr 95"
  by code_simp

text \<open>
  C8, as the code has it. For every question none of whose expected patterns, mistake
  patterns and partial-credit conditions is the empty string, an empty or whitespace-only
  answer gets no rule-tier result: \<open>evaluateResponse\<close> calls the AI capability exactly once
  and returns its outcome, score or failure, unchanged.
\<close>

theorem blank_answer_is_sent_to_ai:
  assumes "\<forall>c\<in>set resp. isWhiteSpace c"
    and "[] \<notin> set (expectedAnswerPatterns q)"
    and "\<forall>m\<in>set (commonMistakes (evaluationCriteria q)). m_pattern m \<noteq> []"
    and "\<forall>r\<in>set (partialCreditRules (evaluationCriteria q)). condition r \<noteq> []"
  shows "tryRuleBasedEvaluation q resp = None
         \<and> evaluateResponse ai q resp ctx = (ai q resp ctx, 1)"
proof -
  have n: "trim (toLowerCase resp) = []"
    using assms(1) by (rule blank_normalizes_to_empty)
  have t: "tryRuleBasedEvaluation q resp = None"
    using firstMatch_empty_response [OF assms(2)]
      mistakeCredits_empty_response [OF assms(3)]
      ruleCredits_empty_response [OF assms(4), of "maxScore (evaluationCriteria q)"]
    by (simp add: tryRuleBasedEvaluation_def n)
  have "map_sum id (combineWithRules None) (ai q resp ctx) = ai q resp ctx"
    by (cases "ai q resp ctx") (simp_all add: combineWithRules_def)
  with t show ?thesis by (simp add: evaluateResponse_def)
qed

theorem blank_answer_is_sent_to_ai_witness:
  "tryRuleBasedEvaluation sumQ ''   '' = None
   \<and> evaluateResponse stubAI sumQ ''   '' demoContext = (stubAI sumQ ''   '' demoContext, 1)"
proof -
  have a: "\<forall>c\<in>set ''   ''. isWhiteSpace c" by code_simp
  have b: "[] \<notin> set (expectedAnswerPatterns sumQ)" by code_simp
  have c: "\<forall>m\<in>set (commonMistakes (evaluationCriteria sumQ)). m_pattern m \<noteq> []"
    by code_simp
  have d: "\<forall>r\<in>set (partialCreditRules (evaluationCriteria sumQ)). condition r \<noteq> []"
    by code_simp
  show ?thesis
    using blank_answer_is_sent_to_ai [OF a b c d, of stubAI demoContext] .
qed

text \<open>
  C8 as stated fails: a whitespace-only answer to the SUM question makes one call to the AI
  tier, and its score is whatever that call returns (here 40).
\<close>

theorem blank_answer_calls_ai_counterexample:
  "evaluateResponse stubAI sumQ ''   '' demoContext = (Inr stubResult, 1)
   \<and> score stubResult = 40"
  by code_simp

section \<open>Skill score aggregation\<close>

text \<open>
  C4 on the code, at a history holding one evaluation (score 80) of a pivot-table question:
  the score is filed under basic formulas, whose average and the overall score become 80,
  and the pivot-table score stays 0.
\<close>

theorem calculateSkillScores_files_pivot_under_basic:
  "category pivotQ = PIVOT_TABLES \<and> questionId pivotEvaluation = q_id pivotQ
   \<and> calculateSkillScores [pivotEvaluation] =
       \<lparr>overall = 80, basicFormulas = 80, dataManipulation = 0, pivotTables = 0,
        advancedFunctions = 0, dataVisualization = 0, macrosVBA = 0, dataModeling = 0\<rparr>"
  by code_simp

text \<open>The overall score is a rounded quotient: one evaluation scored 81 gives the average
  81 and the overall score 80.99999999999999, the binary64 number just below 81.\<close>

lemma overall_is_rounded:
  "basicFormulas (calculateSkillScores [pivotEvaluation\<lparr>score := 81\<rparr>]) = 81
   \<and> overall (calculateSkillScores [pivotEvaluation\<lparr>score := 81\<rparr>])
       = 81 - 1 / 2 ^ 46"
  by code_simp

section \<open>Coverage\<close>

text \<open>The expected number of questions is the same whether \<^verbatim>\<open>15 * weight\<close> is computed
  exactly or in binary64, for every weight of the role tables.\<close>

lemma expected_questions_unaffected_by_rounding:
  "map (\<lambda>w. \<lceil>toDouble (15 * toDouble w)\<rceil>) [0.4, 0.3, 0.25, 0.2, 0.15, 0.1, 0.05, 0.0]
     = map (\<lambda>w. \<lceil>15 * w :: real\<rceil>) [0.4, 0.3, 0.25, 0.2, 0.15, 0.1, 0.05, 0.0]"
  by code_simp

lemma coverage_fold_categories:
  "fst (foldl (coverageStep asked level) acc ws) =
     fst acc @ map (\<lambda>entry. (fst entry,
        min (if getExpectedQuestionsForCategory (fst entry) level > 0
             then real (length (filter (\<lambda>q. category q = fst entry) asked))
                  / real_of_int (getExpectedQuestionsForCategory (fst entry) level)
             else 0) 1)) ws"
  by (induction ws arbitrary: acc) (simp_all add: coverageStep_def Let_def)

lemma category_coverage_in_unit_interval:
  assumes "(c, v) \<in> set (categories (validateQuestionCoverage session))"
  shows "0 \<le> v \<and> v \<le> 1"
proof -
  from assms obtain e where
    "v = min (if getExpectedQuestionsForCategory e (roleLevel session) > 0
              then real (length (filter (\<lambda>q. category q = e) (getAskedQuestions session)))
                   / real_of_int (getExpectedQuestionsForCategory e (roleLevel session))
              else 0) 1"
    by (auto simp add: validateQuestionCoverage_def Let_def coverage_fold_categories)
  then show ?thesis by simp
qed

text \<open>
  C9 on the code, at a basic-level session that has been asked 16 basic-formula questions:
  the coverage of the category is capped at 1, and the overall coverage, accumulated from
  the uncapped ratio 16/6, is 16/15.
\<close>

theorem overallCoverage_exceeds_one:
  "map category (getAskedQuestions (sessionAsking basic (basicFormulaQuestions 16)))
     = replicate 16 BASIC_FORMULAS
   \<and> map_of (categories (validateQuestionCoverage
               (sessionAsking basic (basicFormulaQuestions 16)))) BASIC_FORMULAS = Some 1
   \<and> overallCoverage (validateQuestionCoverage
        (sessionAsking basic (basicFormulaQuestions 16))) = 16 / 15"
  by code_simp

section \<open>Difficulty adaptation\<close>

text \<open>
  C5 on the code, at a session whose only question so far is the SUM question, for the
  category basic formulas: with the same session the tier is advanced when the random
  source yields 0.9 and basic when it yields 0.1.
\<close>

theorem adaptDifficulty_follows_random_source:
  "adaptDifficulty (\<lambda>i. 0.9) (sessionAsking basic [sumQ]) BASIC_FORMULAS = advanced
   \<and> adaptDifficulty (\<lambda>i. 0.1) (sessionAsking basic [sumQ]) BASIC_FORMULAS = basic"
  by code_simp

section \<open>Question selection\<close>















text \<open>The order of the priorities is that of the rounded numbers: in \<open>tieSession\<close> the two
  exact priorities are equal, the rounded priority of data visualization is the larger, and
  data visualization is selected although basic formulas comes first in the table.\<close>

lemma selectNextCategory_follows_rounding:
  "categories (validateQuestionCoverage tieSession) =
     [(BASIC_FORMULAS, 5 / 6), (DATA_MANIPULATION, 1), (DATA_VISUALIZATION, 2 / 3),
      (PIVOT_TABLES, 1), (ADVANCED_FUNCTIONS, 0), (MACROS_VBA, 0), (DATA_MODELING, 0)]
   \<and> (0.4 :: real) * (1 - 5 / 6) = 0.2 * (1 - 2 / 3)
   \<and> toDouble (toDouble 0.4 * toDouble (1 - toDouble (5 / 6)))
       < toDouble (toDouble 0.2 * toDouble (1 - toDouble (2 / 3)))
   \<and> selectNextCategory tieSession (validateQuestionCoverage tieSession)
       = Inr DATA_VISUALIZATION"
  by code_simp

end
